theory Spec2Isabelle
  imports Main "HOL-Library.Word"
begin

section \<open>Values of the host language\<close>

text \<open>
  The objects that \<^verbatim>\<open>json.load\<close> can return: \<^verbatim>\<open>None\<close>, \<^verbatim>\<open>True\<close>/\<^verbatim>\<open>False\<close>,
  an unbounded \<^verbatim>\<open>int\<close>, a \<^verbatim>\<open>float\<close> (given by the 64 bits of its IEEE-754 double),
  a \<^verbatim>\<open>str\<close> (one \<^typ>\<open>char\<close> stands for one character of the string), a
  \<^verbatim>\<open>list\<close>, and a \<^verbatim>\<open>dict\<close> with string keys (its items in insertion order, the
  keys distinct).
\<close>

datatype json =
    JNull
  | JBool bool
  | JInt int
  | JFloat "64 word"
  | JStr string
  | JArr "json list"
  | JObj "(string \<times> json) list"

text \<open>
  What the script can raise. \<^verbatim>\<open>sys.exit(n)\<close> raises \<^verbatim>\<open>SystemExit\<close>, which is
  not a subclass of \<^verbatim>\<open>Exception\<close>; every other failure met here (\<^verbatim>\<open>OSError\<close>,
  \<^verbatim>\<open>UnicodeDecodeError\<close>, \<^verbatim>\<open>JSONDecodeError\<close>, \<^verbatim>\<open>AttributeError\<close>,
  \<^verbatim>\<open>TypeError\<close>, the library's \<^verbatim>\<open>ValueError\<close> and \<^verbatim>\<open>Exception\<close>) is one, and is
  kept with the text that \<^verbatim>\<open>str(e)\<close> gives.
\<close>

datatype exn = SystemExit nat | Exception string

section \<open>The workbook\<close>

text \<open>
  A sheet holds its name and the cells written to it, in the order of the
  \<^verbatim>\<open>sheet.write\<close> calls; a workbook holds its encoding and its sheets.
\<close>

record sheet =
  sheet_name :: string
  cells :: "((nat \<times> nat) \<times> string) list"

record workbook =
  encoding :: string
  sheets :: "sheet list"

text \<open>The content of the cell at a position: the last string written there.\<close>

definition cell_at :: "sheet \<Rightarrow> nat \<Rightarrow> nat \<Rightarrow> string option" where
  "cell_at sh r c = map_of (rev (cells sh)) (r, c)"

section \<open>The environment of a run\<close>

text \<open>
  What the script does not decide itself is a parameter of the model:
  \<^item> \<open>read_text p\<close>: opening the file at \<open>p\<close> for reading as UTF-8 and reading it
    whole; \<open>Inl msg\<close> when that raises;
  \<^item> \<open>json_loads t\<close>: the JSON parser on the text \<open>t\<close>; \<open>Inl msg\<close> when it raises;
  \<^item> \<open>float_repr\<close>, \<open>str_repr\<close>: the language's \<^verbatim>\<open>repr\<close> of a float and of a string;
  \<^item> \<open>write_check r c s\<close>: \<open>Some msg\<close> when the spreadsheet library refuses to write
    the string \<open>s\<close> at row \<open>r\<close>, column \<open>c\<close>, and raises;
  \<^item> \<open>save_check p wb\<close>: \<open>Some msg\<close> when saving the workbook \<open>wb\<close> at the path
    \<open>p\<close> raises.
\<close>

record env =
  read_text :: "string \<Rightarrow> string + string"
  json_loads :: "string \<Rightarrow> string + json"
  float_repr :: "64 word \<Rightarrow> string"
  str_repr :: "string \<Rightarrow> string"
  write_check :: "nat \<Rightarrow> nat \<Rightarrow> string \<Rightarrow> string option"
  save_check :: "string \<Rightarrow> workbook \<Rightarrow> string option"

text \<open>
  What a run does to the outside, in order: opening the input file, a line printed on
  standard output or on standard error, a workbook saved at a path, and a save that
  raised (the state of the file at that path is then not known).
\<close>

datatype event =
    Open_input string
  | Stdout string
  | Stderr string
  | Save string workbook
  | Save_failed string

record result =
  exit_status :: nat
  events :: "event list"

section \<open>Built-in operations of the language\<close>

text \<open>\<^verbatim>\<open>str\<close> of an integer: its decimal digits, with a minus sign when negative.\<close>

fun str_nat :: "nat \<Rightarrow> string" where
  "str_nat n =
     (if n < 10 then [''0123456789'' ! n]
      else str_nat (n div 10) @ [''0123456789'' ! (n mod 10)])"

declare str_nat.simps [simp del]

definition str_int :: "int \<Rightarrow> string" where
  "str_int i = (if i < 0 then CHR ''-'' # str_nat (nat (- i)) else str_nat (nat i))"

fun join :: "string \<Rightarrow> string list \<Rightarrow> string" where
  "join sep [] = []"
| "join sep [x] = x"
| "join sep (x # y # ys) = x @ sep @ join sep (y # ys)"

text \<open>
  \<^verbatim>\<open>repr\<close>: a list prints its elements' \<^verbatim>\<open>repr\<close> between brackets, a dict its
  items between braces.
\<close>

primrec py_repr :: "env \<Rightarrow> json \<Rightarrow> string" where
  "py_repr E JNull = ''None''"
| "py_repr E (JBool b) = (if b then ''True'' else ''False'')"
| "py_repr E (JInt i) = str_int i"
| "py_repr E (JFloat w) = float_repr E w"
| "py_repr E (JStr s) = str_repr E s"
| "py_repr E (JArr xs) = ''['' @ join '', '' (map (py_repr E) xs) @ '']''"
| "py_repr E (JObj kvs) =
     ''{'' @ join '', '' (map (\<lambda>kv. str_repr E (fst kv) @ '': '' @ snd kv)
                              (map (map_prod id (py_repr E)) kvs)) @ ''}''"

text \<open>\<^verbatim>\<open>str\<close>: a string is itself; every other value prints as its \<^verbatim>\<open>repr\<close>.\<close>

definition py_str :: "env \<Rightarrow> json \<Rightarrow> string" where
  "py_str E v = (case v of JStr s \<Rightarrow> s | _ \<Rightarrow> py_repr E v)"

text \<open>The name of a value's type, as error messages print it.\<close>

fun type_name :: "json \<Rightarrow> string" where
  "type_name JNull = ''NoneType''"
| "type_name (JBool b) = ''bool''"
| "type_name (JInt i) = ''int''"
| "type_name (JFloat w) = ''float''"
| "type_name (JStr s) = ''str''"
| "type_name (JArr xs) = ''list''"
| "type_name (JObj kvs) = ''dict''"

text \<open>
  Truth value (\<^verbatim>\<open>not rows\<close> tests its negation): \<^verbatim>\<open>None\<close>, \<^verbatim>\<open>False\<close>, a zero
  number (a float is zero when all its bits but the sign are) and an empty string, list or
  dict are false.
\<close>

fun py_bool :: "json \<Rightarrow> bool" where
  "py_bool JNull = False"
| "py_bool (JBool b) = b"
| "py_bool (JInt i) = (i \<noteq> 0)"
| "py_bool (JFloat w) = (take_bit 63 w \<noteq> 0)"
| "py_bool (JStr s) = (s \<noteq> [])"
| "py_bool (JArr xs) = (xs \<noteq> [])"
| "py_bool (JObj kvs) = (kvs \<noteq> [])"

text \<open>
  Iteration (\<^verbatim>\<open>enumerate(x)\<close> starts one): a list gives its elements, a string its
  characters as one-character strings, a dict its keys; anything else raises
  \<^verbatim>\<open>TypeError\<close>.
\<close>

fun py_iter :: "json \<Rightarrow> exn + json list" where
  "py_iter (JArr xs) = Inr xs"
| "py_iter (JStr s) = Inr (map (\<lambda>ch. JStr [ch]) s)"
| "py_iter (JObj kvs) = Inr (map (\<lambda>kv. JStr (fst kv)) kvs)"
| "py_iter v = Inl (Exception ([CHR 0x27] @ type_name v @ [CHR 0x27] @ '' object is not iterable''))"

text \<open>\<^verbatim>\<open>len\<close>: defined on lists, strings and dicts.\<close>

fun py_len :: "json \<Rightarrow> exn + nat" where
  "py_len (JArr xs) = Inr (length xs)"
| "py_len (JStr s) = Inr (length s)"
| "py_len (JObj kvs) = Inr (length kvs)"
| "py_len v = Inl (Exception (''object of type '' @ [CHR 0x27] @ type_name v @ [CHR 0x27] @ '' has no len()''))"

text \<open>
  \<^verbatim>\<open>data.get(key, default)\<close>: a method of dicts only; on any other value the
  attribute lookup raises \<^verbatim>\<open>AttributeError\<close>.
\<close>

fun py_get :: "json \<Rightarrow> string \<Rightarrow> json \<Rightarrow> exn + json" where
  "py_get (JObj kvs) key dflt = Inr (case map_of kvs key of None \<Rightarrow> dflt | Some v \<Rightarrow> v)"
| "py_get v key dflt =
     Inl (Exception ([CHR 0x27] @ type_name v @ [CHR 0x27] @ '' object has no attribute ''
                     @ [CHR 0x27] @ ''get'' @ [CHR 0x27]))"

section \<open>The script\<close>

text \<open>
  \<^verbatim>\<open>sheet.write(row_idx, col_idx, cell_value)\<close>: the library raises or stores the
  string at the position.
\<close>

definition sheet_write :: "env \<Rightarrow> nat \<Rightarrow> nat \<Rightarrow> string \<Rightarrow> sheet \<Rightarrow> exn + sheet" where
  "sheet_write E r c s sh =
     (case write_check E r c s of
        Some msg \<Rightarrow> Inl (Exception msg)
      | None \<Rightarrow> Inr (sh\<lparr>cells := cells sh @ [((r, c), s)]\<rparr>))"

text \<open>
  The conversion of a cell before it is written:
  \<^verbatim>\<open>if cell_value is None: cell_value = '' else: cell_value = str(cell_value)\<close>.
\<close>

definition cell_str :: "env \<Rightarrow> json \<Rightarrow> string" where
  "cell_str E cell_value = (case cell_value of JNull \<Rightarrow> [] | _ \<Rightarrow> py_str E cell_value)"

text \<open>
  The inner loop \<^verbatim>\<open>for col_idx, cell_value in enumerate(row)\<close>, from column
  \<open>col_idx\<close> on, and the outer loop \<^verbatim>\<open>for row_idx, row in enumerate(rows)\<close>, from row
  \<open>row_idx\<close> on. A raise ends the loops.
\<close>

fun write_row :: "env \<Rightarrow> nat \<Rightarrow> nat \<Rightarrow> json list \<Rightarrow> sheet \<Rightarrow> exn + sheet" where
  "write_row E row_idx col_idx [] sh = Inr sh"
| "write_row E row_idx col_idx (cell_value # rest) sh =
     (case sheet_write E row_idx col_idx (cell_str E cell_value) sh of
        Inl e \<Rightarrow> Inl e
      | Inr sh' \<Rightarrow> write_row E row_idx (Suc col_idx) rest sh')"

fun write_rows :: "env \<Rightarrow> nat \<Rightarrow> json list \<Rightarrow> sheet \<Rightarrow> exn + sheet" where
  "write_rows E row_idx [] sh = Inr sh"
| "write_rows E row_idx (row # rest) sh =
     (case py_iter row of
        Inl e \<Rightarrow> Inl e
      | Inr cell_values \<Rightarrow>
          (case write_row E row_idx 0 cell_values sh of
             Inl e \<Rightarrow> Inl e
           | Inr sh' \<Rightarrow> write_rows E (Suc row_idx) rest sh'))"

text \<open>
  \<^verbatim>\<open>generate_xls(input_json_path, output_xls_path)\<close>: the events of the call, and
  how it ends (\<open>Inr ()\<close> when it returns).
\<close>

definition generate_xls :: "env \<Rightarrow> string \<Rightarrow> string \<Rightarrow> event list \<times> (exn + unit)" where
  "generate_xls E input_json_path output_xls_path =
     (case read_text E input_json_path of
        Inl msg \<Rightarrow> ([Open_input input_json_path], Inl (Exception msg))
      | Inr text \<Rightarrow>
     (case json_loads E text of
        Inl msg \<Rightarrow> ([Open_input input_json_path], Inl (Exception msg))
      | Inr data \<Rightarrow>
     (case py_get data ''rows'' (JArr []) of
        Inl e \<Rightarrow> ([Open_input input_json_path], Inl e)
      | Inr rows \<Rightarrow>
     if \<not> py_bool rows then
       ([Open_input input_json_path, Stderr ''Error: No rows in input data''],
        Inl (SystemExit 1))
     else
     (case py_iter rows of
        Inl e \<Rightarrow> ([Open_input input_json_path], Inl e)
      | Inr row_list \<Rightarrow>
     (case write_rows E 0 row_list \<lparr>sheet_name = ''Sheet1'', cells = []\<rparr> of
        Inl e \<Rightarrow> ([Open_input input_json_path], Inl e)
      | Inr sh \<Rightarrow>
     (let wb = \<lparr>encoding = ''utf-8'', sheets = [sh]\<rparr> in
      case save_check E output_xls_path wb of
        Some msg \<Rightarrow>
          ([Open_input input_json_path, Save_failed output_xls_path], Inl (Exception msg))
      | None \<Rightarrow>
     (case py_len rows of
        Inl e \<Rightarrow> ([Open_input input_json_path, Save output_xls_path wb], Inl e)
      | Inr n \<Rightarrow>
          ([Open_input input_json_path, Save output_xls_path wb,
            Stdout (''Generated XLS with '' @ str_int (int n) @ '' rows'')],
           Inr ()))))))))"

text \<open>
  The script's entry: \<open>prog\<close> is \<^verbatim>\<open>sys.argv[0]\<close> and \<open>args\<close> the arguments after it,
  so \<^verbatim>\<open>len(sys.argv) != 3\<close> is \<open>length args \<noteq> 2\<close>. \<^verbatim>\<open>except Exception\<close> catches
  an \<open>Exception\<close> and lets \<open>SystemExit\<close> through, which ends the process with its
  status.
\<close>

definition main :: "env \<Rightarrow> string \<Rightarrow> string list \<Rightarrow> result" where
  "main E prog args =
     (if length args \<noteq> 2 then
        \<lparr>exit_status = 1,
         events = [Stderr (''Usage: '' @ prog @ '' <input_json> <output_xls>'')]\<rparr>
      else
        (case generate_xls E (args ! 0) (args ! 1) of
           (evs, Inr u) \<Rightarrow> \<lparr>exit_status = 0, events = evs\<rparr>
         | (evs, Inl (Exception msg)) \<Rightarrow>
             \<lparr>exit_status = 1, events = evs @ [Stderr (''Error: '' @ msg)]\<rparr>
         | (evs, Inl (SystemExit n)) \<Rightarrow> \<lparr>exit_status = n, events = evs\<rparr>))"

section \<open>Observations of a run\<close>

text \<open>
  What a run leaves behind, read off its events: the files saved, the paths at which a
  save was attempted, the lines on standard output and on standard error, and the input
  files opened.
\<close>

fun saved_files :: "event list \<Rightarrow> (string \<times> workbook) list" where
  "saved_files [] = []"
| "saved_files (Save p wb # es) = (p, wb) # saved_files es"
| "saved_files (e # es) = saved_files es"

fun save_attempts :: "event list \<Rightarrow> string list" where
  "save_attempts [] = []"
| "save_attempts (Save p wb # es) = p # save_attempts es"
| "save_attempts (Save_failed p # es) = p # save_attempts es"
| "save_attempts (e # es) = save_attempts es"

fun stdout_lines :: "event list \<Rightarrow> string list" where
  "stdout_lines [] = []"
| "stdout_lines (Stdout s # es) = s # stdout_lines es"
| "stdout_lines (e # es) = stdout_lines es"

fun stderr_lines :: "event list \<Rightarrow> string list" where
  "stderr_lines [] = []"
| "stderr_lines (Stderr s # es) = s # stderr_lines es"
| "stderr_lines (e # es) = stderr_lines es"

fun opened_inputs :: "event list \<Rightarrow> string list" where
  "opened_inputs [] = []"
| "opened_inputs (Open_input p # es) = p # opened_inputs es"
| "opened_inputs (e # es) = opened_inputs es"

section \<open>The sheet as the specification describes it\<close>

text \<open>
  The specification's account of the output, for rows \<open>rws\<close> given as a list of lists
  of cells: every cell of every row, in row-major order, as the pair of its zero-based
  position and its string; the rows numbered from \<open>r0\<close>. It is compared below with
  what the loops of the script write.
\<close>

definition spec_cells_from :: "env \<Rightarrow> nat \<Rightarrow> json list list \<Rightarrow> ((nat \<times> nat) \<times> string) list" where
  "spec_cells_from E r0 rws =
     concat (map (\<lambda>(r, row). map (\<lambda>(c, v). ((r, c), cell_str E v)) (enumerate 0 row))
                 (enumerate r0 rws))"

definition spec_cells :: "env \<Rightarrow> json list list \<Rightarrow> ((nat \<times> nat) \<times> string) list" where
  "spec_cells E rws = spec_cells_from E 0 rws"

definition spec_sheet :: "env \<Rightarrow> json list list \<Rightarrow> sheet" where
  "spec_sheet E rws = \<lparr>sheet_name = ''Sheet1'', cells = spec_cells E rws\<rparr>"

definition spec_workbook :: "env \<Rightarrow> json list list \<Rightarrow> workbook" where
  "spec_workbook E rws = \<lparr>encoding = ''utf-8'', sheets = [spec_sheet E rws]\<rparr>"

text \<open>
  The spreadsheet library accepts every write that the rows \<open>rws\<close> ask for: the
  string of each cell at the cell's own position.
\<close>

definition writes_accepted_from :: "env \<Rightarrow> nat \<Rightarrow> json list list \<Rightarrow> bool" where
  "writes_accepted_from E r0 rws =
     list_all (\<lambda>(r, row). list_all (\<lambda>(c, v). write_check E r c (cell_str E v) = None)
                                    (enumerate 0 row))
              (enumerate r0 rws)"

definition writes_accepted :: "env \<Rightarrow> json list list \<Rightarrow> bool" where
  "writes_accepted E rws = writes_accepted_from E 0 rws"

section \<open>An environment for the examples\<close>

text \<open>
  A file system given by the text of each readable file, a parser given by the value of
  each text it accepts (the texts are opaque to the model), a library that refuses a
  string of more than 32767 characters (the limit that the script's comment names), and
  one writable output path. The examples hold no float and no nested container.
\<close>

definition example_env :: "(string \<times> string) list \<Rightarrow> (string \<times> json) list \<Rightarrow> env" where
  "example_env files docs =
     \<lparr>read_text = (\<lambda>p. case map_of files p of
                          None \<Rightarrow> Inl ''[Errno 2] No such file or directory''
                        | Some t \<Rightarrow> Inr t),
      json_loads = (\<lambda>t. case map_of docs t of
                           None \<Rightarrow> Inl ''Expecting value: line 1 column 1 (char 0)''
                         | Some d \<Rightarrow> Inr d),
      float_repr = (\<lambda>w. []),
      str_repr = (\<lambda>s. s),
      write_check = (\<lambda>r c s. if 32767 < length s
                               then Some ''String longer than 32767 characters'' else None),
      save_check = (\<lambda>p wb. if p = ''out.xls'' then None
                             else Some ''[Errno 13] Permission denied'')\<rparr>"

text \<open>The document \<^verbatim>\<open>{"rows": rws}\<close> as the parser returns it.\<close>

definition rows_doc :: "json list list \<Rightarrow> json" where
  "rows_doc rws = JObj [(''rows'', JArr (map JArr rws))]"

section \<open>The loops write the cells in row-major order\<close>

lemma write_row_eq:
  "list_all (\<lambda>(c, v). write_check E r c (cell_str E v) = None) (enumerate c0 vs) \<Longrightarrow>
   write_row E r c0 vs sh =
     Inr (sh\<lparr>cells := cells sh @ map (\<lambda>(c, v). ((r, c), cell_str E v)) (enumerate c0 vs)\<rparr>)"
  by (induction vs arbitrary: c0 sh) (simp_all add: sheet_write_def)

lemma write_rows_eq:
  "writes_accepted_from E r0 rws \<Longrightarrow>
   write_rows E r0 (map JArr rws) sh = Inr (sh\<lparr>cells := cells sh @ spec_cells_from E r0 rws\<rparr>)"
  by (induction rws arbitrary: r0 sh)
     (simp_all add: writes_accepted_from_def spec_cells_from_def write_row_eq)

lemma in_row_cells:
  "(((r', c), s) \<in> set (map (\<lambda>(c, v). ((r, c), f v)) (enumerate 0 vs))) =
   (r' = r \<and> c < length vs \<and> s = f (vs ! c))"
proof
  assume "((r', c), s) \<in> set (map (\<lambda>(c, v). ((r, c), f v)) (enumerate 0 vs))"
  then obtain i v where "(i, v) \<in> set (enumerate 0 vs)" and "((r', c), s) = ((r, i), f v)"
    by auto
  then show "r' = r \<and> c < length vs \<and> s = f (vs ! c)"
    by (auto simp: in_set_enumerate_eq)
next
  assume rhs: "r' = r \<and> c < length vs \<and> s = f (vs ! c)"
  then have "(c, vs ! c) \<in> set (enumerate 0 vs)"
    by (simp add: in_set_enumerate_eq)
  then have "(\<lambda>(c, v). ((r, c), f v)) (c, vs ! c) \<in> set (map (\<lambda>(c, v). ((r, c), f v)) (enumerate 0 vs))"
    unfolding set_map by (rule imageI)
  with rhs show "((r', c), s) \<in> set (map (\<lambda>(c, v). ((r, c), f v)) (enumerate 0 vs))"
    by simp
qed

lemma in_spec_cells_from:
  "(((r, c), s) \<in> set (spec_cells_from E r0 rws)) =
   (r0 \<le> r \<and> r < r0 + length rws \<and> c < length (rws ! (r - r0))
    \<and> s = cell_str E (rws ! (r - r0) ! c))"
proof (induction rws arbitrary: r0)
  case Nil
  show ?case by (simp add: spec_cells_from_def)
next
  case (Cons row rws)
  have step: "spec_cells_from E r0 (row # rws) =
      map (\<lambda>(c, v). ((r0, c), cell_str E v)) (enumerate 0 row) @ spec_cells_from E (Suc r0) rws"
    by (simp add: spec_cells_from_def)
  show ?case
  proof (cases "r = r0")
    case True
    then show ?thesis
      using Cons.IH [of "Suc r0"] by (auto simp: step in_row_cells simp del: set_map)
  next
    case False
    then show ?thesis
      by (auto simp: step in_row_cells Cons.IH nth_Cons' Suc_diff_le simp del: set_map)
  qed
qed

lemma distinct_row_cells:
  "distinct (map fst (map (\<lambda>(c, v). ((r, c), f v)) (enumerate c0 vs)))"
proof -
  have "map fst (map (\<lambda>(c, v). ((r, c), f v)) (enumerate c0 vs)) = map (Pair r) (map fst (enumerate c0 vs))"
    by (simp add: case_prod_unfold comp_def del: map_fst_enumerate)
  then show ?thesis
    by (simp add: distinct_map inj_on_def del: map_map)
qed

lemma row_of_spec_cells_from:
  "k \<in> fst ` set (spec_cells_from E r0 rws) \<Longrightarrow> r0 \<le> fst k"
  by (cases k) (auto simp: in_spec_cells_from)

lemma distinct_spec_cells_from: "distinct (map fst (spec_cells_from E r0 rws))"
proof (induction rws arbitrary: r0)
  case Nil
  show ?case by (simp add: spec_cells_from_def)
next
  case (Cons row rws)
  have step: "spec_cells_from E r0 (row # rws) =
      map (\<lambda>(c, v). ((r0, c), cell_str E v)) (enumerate 0 row) @ spec_cells_from E (Suc r0) rws"
    by (simp add: spec_cells_from_def)
  have disj: "set (map fst (map (\<lambda>(c, v). ((r0, c), cell_str E v)) (enumerate 0 row)))
        \<inter> set (map fst (spec_cells_from E (Suc r0) rws)) = {}"
  proof (rule ccontr)
    assume "set (map fst (map (\<lambda>(c, v). ((r0, c), cell_str E v)) (enumerate 0 row)))
        \<inter> set (map fst (spec_cells_from E (Suc r0) rws)) \<noteq> {}"
    then obtain k where k1: "k \<in> fst ` set (map (\<lambda>(c, v). ((r0, c), cell_str E v)) (enumerate 0 row))"
      and k2: "k \<in> fst ` set (spec_cells_from E (Suc r0) rws)"
      unfolding set_map by blast
    from k1 have "fst k = r0" by auto
    moreover from k2 have "Suc r0 \<le> fst k" by (rule row_of_spec_cells_from)
    ultimately show False by simp
  qed
  show ?case
    unfolding step map_append distinct_append
    using distinct_row_cells [of r0 "cell_str E" 0 row] Cons.IH [of "Suc r0"] disj
    by blast
qed

lemma cell_at_spec:
  "cell_at \<lparr>sheet_name = nm, cells = spec_cells_from E 0 rws\<rparr> r c =
     (if r < length rws \<and> c < length (rws ! r) then Some (cell_str E (rws ! r ! c)) else None)"
proof (cases "r < length rws \<and> c < length (rws ! r)")
  case True
  then have "((r, c), cell_str E (rws ! r ! c)) \<in> set (rev (spec_cells_from E 0 rws))"
    by (simp add: in_spec_cells_from)
  moreover have "distinct (map fst (rev (spec_cells_from E 0 rws)))"
    by (simp add: rev_map [symmetric] distinct_spec_cells_from)
  ultimately have "map_of (rev (spec_cells_from E 0 rws)) (r, c) = Some (cell_str E (rws ! r ! c))"
    by (rule map_of_is_SomeI [rotated])
  with True show ?thesis by (simp add: cell_at_def)
next
  case False
  have "(r, c) \<notin> fst ` set (rev (spec_cells_from E 0 rws))"
  proof
    assume "(r, c) \<in> fst ` set (rev (spec_cells_from E 0 rws))"
    then obtain s where "((r, c), s) \<in> set (spec_cells_from E 0 rws)"
      by auto
    then have "r < length rws \<and> c < length (rws ! r)"
      by (simp add: in_spec_cells_from)
    with False show False by simp
  qed
  then have "map_of (rev (spec_cells_from E 0 rws)) (r, c) = None"
    by (simp add: map_of_eq_None_iff)
  with False show ?thesis by (simp add: cell_at_def)
qed

lemma length_spec_cells_from: "length (spec_cells_from E r0 rws) = sum_list (map length rws)"
  by (induction rws arbitrary: r0) (simp_all add: spec_cells_from_def)

lemma values_spec_cells_from: "map snd (spec_cells_from E r0 rws) = map (cell_str E) (concat rws)"
proof (induction rws arbitrary: r0)
  case Nil
  show ?case by (simp add: spec_cells_from_def)
next
  case (Cons row rws)
  have "map snd (map (\<lambda>(c, v). ((r0, c), cell_str E v)) (enumerate 0 row)) = map (cell_str E) (map snd (enumerate 0 row))"
    by (simp add: case_prod_unfold comp_def del: map_snd_enumerate)
  with Cons.IH [of "Suc r0"] show ?case by (simp add: spec_cells_from_def del: map_map)
qed



section \<open>Runs of the script\<close>

lemma generate_xls_valid:
  assumes "read_text E inp = Inr text"
    and "json_loads E text = Inr (JObj kvs)"
    and "map_of kvs ''rows'' = Some (JArr (map JArr rws))"
    and "rws \<noteq> []"
    and "writes_accepted E rws"
  shows "generate_xls E inp outp =
     (case save_check E outp (spec_workbook E rws) of
        Some msg \<Rightarrow> ([Open_input inp, Save_failed outp], Inl (Exception msg))
      | None \<Rightarrow>
          ([Open_input inp, Save outp (spec_workbook E rws),
            Stdout (''Generated XLS with '' @ str_int (int (length rws)) @ '' rows'')], Inr ()))"
proof -
  have loop: "write_rows E 0 (map JArr rws) \<lparr>sheet_name = ''Sheet1'', cells = []\<rparr> = Inr (spec_sheet E rws)"
    using assms(5) by (simp add: write_rows_eq writes_accepted_def spec_sheet_def spec_cells_def)
  show ?thesis
    using assms(1-4)
    by (simp add: generate_xls_def loop spec_workbook_def split: option.split)
qed

lemma main_valid:
  assumes "read_text E inp = Inr text"
    and "json_loads E text = Inr (JObj kvs)"
    and "map_of kvs ''rows'' = Some (JArr (map JArr rws))"
    and "rws \<noteq> []"
    and "writes_accepted E rws"
    and "save_check E outp (spec_workbook E rws) = None"
  shows "main E prog [inp, outp] =
     \<lparr>exit_status = 0,
      events = [Open_input inp, Save outp (spec_workbook E rws),
                Stdout (''Generated XLS with '' @ str_int (int (length rws)) @ '' rows'')]\<rparr>"
  using assms(6) by (simp add: main_def generate_xls_valid [OF assms(1-5)])

lemma main_no_rows:
  assumes "read_text E inp = Inr text"
    and "json_loads E text = Inr (JObj kvs)"
    and "map_of kvs ''rows'' = None \<or> (\<exists>v. map_of kvs ''rows'' = Some v \<and> \<not> py_bool v)"
  shows "main E prog [inp, outp] =
     \<lparr>exit_status = 1, events = [Open_input inp, Stderr ''Error: No rows in input data'']\<rparr>"
  using assms by (auto simp: main_def generate_xls_def)

section \<open>The cells of the output sheet\<close>

text \<open>
  Claim C1. For a valid input document with a non-empty \<open>rows\<close> sequence (a list of
  lists of cells), when the library accepts the writes and the save, the run saves one
  workbook; its sheet holds the cells in row-major original order, nothing reordered or
  left out, and for every row index \<open>r\<close> and column index \<open>c\<close> of the input the cell
  at the zero-based position \<open>(r, c)\<close> is the string form of \<open>rows[r][c]\<close>: the
  empty string for a null cell, the string itself for a string, \<^verbatim>\<open>str\<close> of the value
  otherwise.
\<close>

theorem cells_match_input:
  assumes "read_text E inp = Inr text"
    and "json_loads E text = Inr (JObj kvs)"
    and "map_of kvs ''rows'' = Some (JArr (map JArr rws))"
    and "rws \<noteq> []"
    and "writes_accepted E rws"
    and "save_check E outp (spec_workbook E rws) = None"
  shows "saved_files (events (main E prog [inp, outp]))
           = [(outp, \<lparr>encoding = ''utf-8'', sheets = [spec_sheet E rws]\<rparr>)]
       \<and> cells (spec_sheet E rws) = spec_cells E rws
       \<and> (\<forall>r<length rws. \<forall>c<length (rws ! r).
             cell_at (spec_sheet E rws) r c
               = Some (case rws ! r ! c of JNull \<Rightarrow> [] | JStr s \<Rightarrow> s | v \<Rightarrow> py_str E v))"
proof -
  have "saved_files (events (main E prog [inp, outp])) = [(outp, spec_workbook E rws)]"
    by (simp add: main_valid [OF assms])
  moreover have "cells (spec_sheet E rws) = spec_cells E rws"
    by (simp add: spec_sheet_def)
  moreover have "cell_at (spec_sheet E rws) r c
        = Some (case rws ! r ! c of JNull \<Rightarrow> [] | JStr s \<Rightarrow> s | v \<Rightarrow> py_str E v)"
    if "r < length rws" and "c < length (rws ! r)" for r c
  proof -
    have "cell_at (spec_sheet E rws) r c = Some (cell_str E (rws ! r ! c))"
      using that by (simp add: spec_sheet_def spec_cells_def cell_at_spec)
    then show ?thesis
      by (simp add: cell_str_def py_str_def split: json.split)
  qed
  ultimately show ?thesis
    by (simp add: spec_workbook_def)
qed

theorem cells_match_input_witness:
  "saved_files (events (main
       (example_env [(''in.json'', ''doc'')]
          [(''doc'', rows_doc [[JStr ''Name'', JStr ''Age''], [JStr ''Alice'', JInt 30],
                               [JNull, JBool True]])])
       ''generate_xls.py'' [''in.json'', ''out.xls'']))
     = [(''out.xls'',
         \<lparr>encoding = ''utf-8'',
          sheets = [\<lparr>sheet_name = ''Sheet1'',
                     cells = [((0, 0), ''Name''), ((0, 1), ''Age''),
                              ((1, 0), ''Alice''), ((1, 1), ''30''),
                              ((2, 0), []), ((2, 1), ''True'')]\<rparr>]\<rparr>)]
   \<and> cell_at (spec_sheet (example_env [(''in.json'', ''doc'')]
          [(''doc'', rows_doc [[JStr ''Name'', JStr ''Age''], [JStr ''Alice'', JInt 30],
                               [JNull, JBool True]])])
        [[JStr ''Name'', JStr ''Age''], [JStr ''Alice'', JInt 30], [JNull, JBool True]]) 2 0
     = Some []"
proof -
  let ?rws = "[[JStr ''Name'', JStr ''Age''], [JStr ''Alice'', JInt 30], [JNull, JBool True]]"
  let ?E = "example_env [(''in.json'', ''doc'')] [(''doc'', rows_doc ?rws)]"
  have h1: "read_text ?E ''in.json'' = Inr ''doc''"
    by (simp add: example_env_def)
  have h2: "json_loads ?E ''doc'' = Inr (JObj [(''rows'', JArr (map JArr ?rws))])"
    by (simp add: example_env_def rows_doc_def)
  have h3: "map_of [(''rows'', JArr (map JArr ?rws))] ''rows'' = Some (JArr (map JArr ?rws))"
    by simp
  have h4: "?rws \<noteq> []"
    by simp
  have h5: "writes_accepted ?E ?rws"
    by (simp add: writes_accepted_def writes_accepted_from_def example_env_def cell_str_def
        py_str_def str_int_def str_nat.simps)
  have h6: "save_check ?E ''out.xls'' (spec_workbook ?E ?rws) = None"
    by (simp add: example_env_def)
  have cs: "spec_cells ?E ?rws
      = [((0, 0), ''Name''), ((0, 1), ''Age''), ((1, 0), ''Alice''), ((1, 1), ''30''),
         ((2, 0), []), ((2, 1), ''True'')]"
    by (simp add: spec_cells_def spec_cells_from_def cell_str_def py_str_def str_int_def
        str_nat.simps)
  from cells_match_input [OF h1 h2 h3 h4 h5 h6, of "''generate_xls.py''"]
  show ?thesis
    by (simp add: spec_sheet_def cs)
qed

section \<open>Runs that end with status 1\<close>

text \<open>
  Claim C2. For every input document in which the \<open>rows\<close> field is absent or is an
  empty sequence, whatever else the document holds, the run ends with exit status 1,
  prints one error line on standard error and attempts no save, so no output file is
  produced; the absent key and the empty sequence give the same run.
\<close>

theorem empty_rows_exit_1:
  assumes "read_text E inp = Inr text"
    and "json_loads E text = Inr (JObj kvs)"
    and "map_of kvs ''rows'' = None \<or> map_of kvs ''rows'' = Some (JArr [])"
  shows "main E prog [inp, outp] =
           \<lparr>exit_status = 1,
            events = [Open_input inp, Stderr ''Error: No rows in input data'']\<rparr>
       \<and> save_attempts (events (main E prog [inp, outp])) = []"
proof -
  from assms(3)
  have "map_of kvs ''rows'' = None \<or> (\<exists>v. map_of kvs ''rows'' = Some v \<and> \<not> py_bool v)"
    by auto
  from main_no_rows [OF assms(1,2) this] show ?thesis
    by simp
qed

theorem empty_rows_exit_1_witness:
  "main (example_env [(''in.json'', ''doc'')] [(''doc'', JObj [(''title'', JStr ''x'')])])
        ''generate_xls.py'' [''in.json'', ''out.xls'']
     = \<lparr>exit_status = 1,
        events = [Open_input ''in.json'', Stderr ''Error: No rows in input data'']\<rparr>
   \<and> main (example_env [(''in.json'', ''doc'')]
              [(''doc'', JObj [(''rows'', JArr []), (''title'', JStr ''x'')])])
        ''generate_xls.py'' [''in.json'', ''out.xls'']
     = \<lparr>exit_status = 1,
        events = [Open_input ''in.json'', Stderr ''Error: No rows in input data'']\<rparr>"
proof -
  let ?E1 = "example_env [(''in.json'', ''doc'')] [(''doc'', JObj [(''title'', JStr ''x'')])]"
  let ?E2 = "example_env [(''in.json'', ''doc'')]
               [(''doc'', JObj [(''rows'', JArr []), (''title'', JStr ''x'')])]"
  have a1: "read_text ?E1 ''in.json'' = Inr ''doc''"
    by (simp add: example_env_def)
  have a2: "json_loads ?E1 ''doc'' = Inr (JObj [(''title'', JStr ''x'')])"
    by (simp add: example_env_def)
  have a3: "map_of [(''title'', JStr ''x'')] ''rows'' = None
            \<or> map_of [(''title'', JStr ''x'')] ''rows'' = Some (JArr [])"
    by simp
  have b1: "read_text ?E2 ''in.json'' = Inr ''doc''"
    by (simp add: example_env_def)
  have b2: "json_loads ?E2 ''doc'' = Inr (JObj [(''rows'', JArr []), (''title'', JStr ''x'')])"
    by (simp add: example_env_def)
  have b3: "map_of [(''rows'', JArr []), (''title'', JStr ''x'')] ''rows'' = None
            \<or> map_of [(''rows'', JArr []), (''title'', JStr ''x'')] ''rows'' = Some (JArr [])"
    by simp
  from empty_rows_exit_1 [OF a1 a2 a3, of "''generate_xls.py''" "''out.xls''"]
       empty_rows_exit_1 [OF b1 b2 b3, of "''generate_xls.py''" "''out.xls''"]
  show ?thesis
    by simp
qed

text \<open>
  Claim C9. For every valid-JSON input document whose \<open>rows\<close> field holds a false
  value that is not a list (null, false, 0, the empty string or an empty object), the run
  is the run of the empty-rows case: exit status 1, the one error line about no rows on
  standard error, no save attempted; no type error is raised.
\<close>

theorem falsy_rows_exit_1:
  assumes "read_text E inp = Inr text"
    and "json_loads E text = Inr (JObj kvs)"
    and "map_of kvs ''rows'' = Some v"
    and "v \<in> {JNull, JBool False, JInt 0, JStr [], JObj []}"
  shows "main E prog [inp, outp] =
           \<lparr>exit_status = 1,
            events = [Open_input inp, Stderr ''Error: No rows in input data'']\<rparr>
       \<and> stderr_lines (events (main E prog [inp, outp])) = [''Error: No rows in input data'']
       \<and> save_attempts (events (main E prog [inp, outp])) = []"
proof -
  from assms(4) have "\<not> py_bool v"
    by auto
  with assms(3)
  have "map_of kvs ''rows'' = None \<or> (\<exists>v. map_of kvs ''rows'' = Some v \<and> \<not> py_bool v)"
    by simp
  from main_no_rows [OF assms(1,2) this] show ?thesis
    by simp
qed

theorem falsy_rows_exit_1_witness:
  "list_all (\<lambda>v. main (example_env [(''in.json'', ''doc'')] [(''doc'', JObj [(''rows'', v)])])
                        ''generate_xls.py'' [''in.json'', ''out.xls'']
                   = \<lparr>exit_status = 1,
                      events = [Open_input ''in.json'',
                                Stderr ''Error: No rows in input data'']\<rparr>)
            [JNull, JBool False, JInt 0, JStr [], JObj []]"
proof -
  have run: "main (example_env [(''in.json'', ''doc'')] [(''doc'', JObj [(''rows'', v)])])
                  ''generate_xls.py'' [''in.json'', ''out.xls'']
             = \<lparr>exit_status = 1,
                events = [Open_input ''in.json'', Stderr ''Error: No rows in input data'']\<rparr>"
    if "v \<in> {JNull, JBool False, JInt 0, JStr [], JObj []}" for v
  proof -
    let ?E = "example_env [(''in.json'', ''doc'')] [(''doc'', JObj [(''rows'', v)])]"
    have h1: "read_text ?E ''in.json'' = Inr ''doc''"
      by (simp add: example_env_def)
    have h2: "json_loads ?E ''doc'' = Inr (JObj [(''rows'', v)])"
      by (simp add: example_env_def)
    have h3: "map_of [(''rows'', v)] ''rows'' = Some v"
      by simp
    from falsy_rows_exit_1 [OF h1 h2 h3 that, of "''generate_xls.py''" "''out.xls''"]
    show ?thesis
      by simp
  qed
  show ?thesis
    by (simp add: run)
qed

text \<open>
  Claim C4. For every input file whose content is not valid JSON, the run ends with exit
  status 1 and prints the parser's message, after \<open>Error: \<close>, on standard error; no
  save is attempted, so no output file, not even a partial one, is produced.
\<close>

theorem malformed_json_exit_1:
  assumes "read_text E inp = Inr text"
    and "json_loads E text = Inl msg"
  shows "main E prog [inp, outp] =
           \<lparr>exit_status = 1, events = [Open_input inp, Stderr (''Error: '' @ msg)]\<rparr>
       \<and> save_attempts (events (main E prog [inp, outp])) = []"
  using assms by (simp add: main_def generate_xls_def)

theorem malformed_json_exit_1_witness:
  "main (example_env [(''in.json'', ''{'')] []) ''generate_xls.py'' [''in.json'', ''out.xls'']
     = \<lparr>exit_status = 1,
        events = [Open_input ''in.json'',
                  Stderr ''Error: Expecting value: line 1 column 1 (char 0)'']\<rparr>"
proof -
  let ?E = "example_env [(''in.json'', ''{'')] []"
  have h1: "read_text ?E ''in.json'' = Inr ''{''"
    by (simp add: example_env_def)
  have h2: "json_loads ?E ''{'' = Inl ''Expecting value: line 1 column 1 (char 0)''"
    by (simp add: example_env_def)
  from malformed_json_exit_1 [OF h1 h2, of "''generate_xls.py''" "''out.xls''"]
  show ?thesis
    by simp
qed

text \<open>
  Claim C8. For every invocation whose command line does not have exactly two
  positional arguments, the run prints the usage line on standard error and ends with
  exit status 1; it opens no input and attempts no save.
\<close>

theorem usage_error_exit_1:
  assumes "length args \<noteq> 2"
  shows "main E prog args =
           \<lparr>exit_status = 1,
            events = [Stderr (''Usage: '' @ prog @ '' <input_json> <output_xls>'')]\<rparr>
       \<and> opened_inputs (events (main E prog args)) = []
       \<and> save_attempts (events (main E prog args)) = []"
  using assms by (simp add: main_def)

theorem usage_error_exit_1_witness:
  "main (example_env [(''in.json'', ''doc'')] [(''doc'', rows_doc [[JStr ''a'']])])
        ''generate_xls.py'' [''in.json'']
     = \<lparr>exit_status = 1,
        events = [Stderr ''Usage: generate_xls.py <input_json> <output_xls>'']\<rparr>
   \<and> main (example_env [(''in.json'', ''doc'')] [(''doc'', rows_doc [[JStr ''a'']])])
        ''generate_xls.py'' [''in.json'', ''out.xls'', ''extra'']
     = \<lparr>exit_status = 1,
        events = [Stderr ''Usage: generate_xls.py <input_json> <output_xls>'']\<rparr>"
proof -
  have a: "length [''in.json''] \<noteq> 2"
    by simp
  have b: "length [''in.json'', ''out.xls'', ''extra''] \<noteq> 2"
    by simp
  from usage_error_exit_1 [OF a] usage_error_exit_1 [OF b]
  show ?thesis
    by simp
qed

section \<open>Successful runs\<close>

text \<open>The decimal digits of a number determine it, so the printed count names one number.\<close>

lemma str_nat_not_Nil: "str_nat n \<noteq> []"
  by (subst str_nat.simps) simp

lemma digit_inject:
  assumes "a < 10" and "b < 10" and "''0123456789'' ! a = ''0123456789'' ! b"
  shows "a = b"
proof -
  have "distinct ''0123456789''"
    by simp
  moreover have "a < length ''0123456789''" and "b < length ''0123456789''"
    using assms(1,2) by simp_all
  ultimately show ?thesis
    using assms(3) by (simp only: nth_eq_iff_index_eq)
qed

lemma str_nat_inject: "str_nat m = str_nat n \<Longrightarrow> m = n"
proof (induction m arbitrary: n rule: str_nat.induct)
  case (1 m)
  show ?case
  proof (cases "m < 10")
    case m_small: True
    show ?thesis
    proof (cases "n < 10")
      case True
      with m_small "1.prems" show ?thesis
        by (simp add: str_nat.simps [of m] str_nat.simps [of n] digit_inject)
    next
      case False
      with m_small "1.prems" show ?thesis
        by (simp add: str_nat.simps [of m] str_nat.simps [of n] str_nat_not_Nil
            str_nat_not_Nil [symmetric])
    qed
  next
    case m_big: False
    show ?thesis
    proof (cases "n < 10")
      case True
      with m_big "1.prems" show ?thesis
        by (simp add: str_nat.simps [of m] str_nat.simps [of n] str_nat_not_Nil
            str_nat_not_Nil [symmetric])
    next
      case False
      with m_big "1.prems"
      have eq: "str_nat (m div 10) = str_nat (n div 10)"
        and dg: "''0123456789'' ! (m mod 10) = ''0123456789'' ! (n mod 10)"
        by (simp_all add: str_nat.simps [of m] str_nat.simps [of n])
      from "1.IH" [OF m_big eq] have "m div 10 = n div 10" .
      moreover have "m mod 10 = n mod 10"
        by (rule digit_inject [OF _ _ dg]) simp_all
      ultimately show ?thesis
        by (metis div_mult_mod_eq)
    qed
  qed
qed

lemma str_int_of_nat_inject: "str_int (int m) = str_int (int n) \<Longrightarrow> m = n"
  by (simp add: str_int_def str_nat_inject)

text \<open>
  Claim C3. For every successful run (a non-empty list of rows, a readable input, the
  writes and the save accepted), standard output holds the one line
  \<open>Generated XLS with n rows\<close> in which \<open>n\<close> is the decimal form of the length of
  \<open>rows\<close> and of no other number, and the exit status is zero.
\<close>

theorem row_count_reported:
  assumes "read_text E inp = Inr text"
    and "json_loads E text = Inr (JObj kvs)"
    and "map_of kvs ''rows'' = Some (JArr (map JArr rws))"
    and "rws \<noteq> []"
    and "writes_accepted E rws"
    and "save_check E outp (spec_workbook E rws) = None"
  shows "exit_status (main E prog [inp, outp]) = 0
       \<and> stdout_lines (events (main E prog [inp, outp]))
           = [''Generated XLS with '' @ str_int (int (length rws)) @ '' rows'']
       \<and> (\<forall>n. str_int (int n) = str_int (int (length rws)) \<longrightarrow> n = length rws)"
  by (simp add: main_valid [OF assms] str_int_of_nat_inject)

theorem row_count_reported_witness:
  "exit_status (main (example_env [(''in.json'', ''doc'')]
                        [(''doc'', rows_doc [[JStr ''Name''], [JStr ''Alice''], [JNull]])])
                     ''generate_xls.py'' [''in.json'', ''out.xls'']) = 0
   \<and> stdout_lines (events (main (example_env [(''in.json'', ''doc'')]
                        [(''doc'', rows_doc [[JStr ''Name''], [JStr ''Alice''], [JNull]])])
                     ''generate_xls.py'' [''in.json'', ''out.xls'']))
     = [''Generated XLS with 3 rows'']"
proof -
  let ?rws = "[[JStr ''Name''], [JStr ''Alice''], [JNull]]"
  let ?E = "example_env [(''in.json'', ''doc'')] [(''doc'', rows_doc ?rws)]"
  have h1: "read_text ?E ''in.json'' = Inr ''doc''"
    by (simp add: example_env_def)
  have h2: "json_loads ?E ''doc'' = Inr (JObj [(''rows'', JArr (map JArr ?rws))])"
    by (simp add: example_env_def rows_doc_def)
  have h3: "map_of [(''rows'', JArr (map JArr ?rws))] ''rows'' = Some (JArr (map JArr ?rws))"
    by simp
  have h4: "?rws \<noteq> []"
    by simp
  have h5: "writes_accepted ?E ?rws"
    by (simp add: writes_accepted_def writes_accepted_from_def example_env_def cell_str_def
        py_str_def)
  have h6: "save_check ?E ''out.xls'' (spec_workbook ?E ?rws) = None"
    by (simp add: example_env_def)
  from row_count_reported [OF h1 h2 h3 h4 h5 h6, of "''generate_xls.py''"]
  show ?thesis
    by (simp add: str_int_def str_nat.simps)
qed

text \<open>The loops write nothing when every row is an empty list.\<close>

lemma write_rows_all_empty:
  "\<forall>row\<in>set rows. row = JArr [] \<Longrightarrow> write_rows E r rows sh = Inr sh"
  by (induction rows arbitrary: r) simp_all

text \<open>
  Claim C10. For every input whose \<open>rows\<close> field is a non-empty list all of whose
  elements are empty rows, the conversion succeeds when the save does: the workbook saved
  has the single sheet \<open>Sheet1\<close> with no cells, the count printed is the number of rows,
  and the exit status is zero. The error for empty data is for an empty outer sequence
  only.
\<close>

theorem all_rows_empty_succeeds:
  assumes "read_text E inp = Inr text"
    and "json_loads E text = Inr (JObj kvs)"
    and "map_of kvs ''rows'' = Some (JArr rows)"
    and "rows \<noteq> []"
    and "\<forall>row\<in>set rows. row = JArr []"
    and "save_check E outp
           \<lparr>encoding = ''utf-8'', sheets = [\<lparr>sheet_name = ''Sheet1'', cells = []\<rparr>]\<rparr> = None"
  shows "main E prog [inp, outp] =
           \<lparr>exit_status = 0,
            events = [Open_input inp,
                      Save outp \<lparr>encoding = ''utf-8'',
                                 sheets = [\<lparr>sheet_name = ''Sheet1'', cells = []\<rparr>]\<rparr>,
                      Stdout (''Generated XLS with '' @ str_int (int (length rows))
                              @ '' rows'')]\<rparr>"
  using assms(1-4,6)
  by (simp add: main_def generate_xls_def write_rows_all_empty [OF assms(5)])

theorem all_rows_empty_succeeds_witness:
  "main (example_env [(''in.json'', ''doc'')] [(''doc'', JObj [(''rows'', JArr [JArr []])])])
        ''generate_xls.py'' [''in.json'', ''out.xls'']
     = \<lparr>exit_status = 0,
        events = [Open_input ''in.json'',
                  Save ''out.xls'' \<lparr>encoding = ''utf-8'',
                                     sheets = [\<lparr>sheet_name = ''Sheet1'', cells = []\<rparr>]\<rparr>,
                  Stdout ''Generated XLS with 1 rows'']\<rparr>"
proof -
  let ?E = "example_env [(''in.json'', ''doc'')] [(''doc'', JObj [(''rows'', JArr [JArr []])])]"
  have h1: "read_text ?E ''in.json'' = Inr ''doc''"
    by (simp add: example_env_def)
  have h2: "json_loads ?E ''doc'' = Inr (JObj [(''rows'', JArr [JArr []])])"
    by (simp add: example_env_def)
  have h3: "map_of [(''rows'', JArr [JArr []])] ''rows'' = Some (JArr [JArr []])"
    by simp
  have h4: "[JArr []] \<noteq> []"
    by simp
  have h5: "\<forall>row\<in>set [JArr []]. row = JArr []"
    by simp
  have h6: "save_check ?E ''out.xls''
              \<lparr>encoding = ''utf-8'', sheets = [\<lparr>sheet_name = ''Sheet1'', cells = []\<rparr>]\<rparr> = None"
    by (simp add: example_env_def)
  from all_rows_empty_succeeds [OF h1 h2 h3 h4 h5 h6, of "''generate_xls.py''"]
  show ?thesis
    by (simp add: str_int_def str_nat.simps)
qed

section \<open>Nothing cut, nothing padded\<close>

text \<open>
  Claim C5. On a successful run the string form of every input cell is in the output
  unchanged: the strings of the sheet's cells, in order, are the string forms of all the
  cells of all the rows, equal cells kept as often as they occur, and a string cell is
  stored as it is, whatever its length. The script itself has no length cap; a string of
  32767 characters is stored in full by a library that takes strings of that length.
\<close>

theorem strings_written_in_full:
  assumes "read_text E inp = Inr text"
    and "json_loads E text = Inr (JObj kvs)"
    and "map_of kvs ''rows'' = Some (JArr (map JArr rws))"
    and "rws \<noteq> []"
    and "writes_accepted E rws"
    and "save_check E outp (spec_workbook E rws) = None"
  shows "saved_files (events (main E prog [inp, outp]))
           = [(outp, \<lparr>encoding = ''utf-8'', sheets = [spec_sheet E rws]\<rparr>)]
       \<and> map snd (cells (spec_sheet E rws)) = map (cell_str E) (concat rws)
       \<and> (\<forall>r<length rws. \<forall>c<length (rws ! r). \<forall>s.
             rws ! r ! c = JStr s \<longrightarrow> cell_at (spec_sheet E rws) r c = Some s)"
proof -
  have "saved_files (events (main E prog [inp, outp])) = [(outp, spec_workbook E rws)]"
    by (simp add: main_valid [OF assms])
  moreover have "map snd (cells (spec_sheet E rws)) = map (cell_str E) (concat rws)"
    by (simp add: spec_sheet_def spec_cells_def values_spec_cells_from)
  moreover have "cell_at (spec_sheet E rws) r c = Some s"
    if "r < length rws" and "c < length (rws ! r)" and "rws ! r ! c = JStr s" for r c s
    using that by (simp add: spec_sheet_def spec_cells_def cell_at_spec cell_str_def py_str_def)
  ultimately show ?thesis
    by (simp add: spec_workbook_def)
qed

theorem strings_written_in_full_witness:
  "map snd (cells (spec_sheet
       (example_env [(''in.json'', ''doc'')]
          [(''doc'', rows_doc [[JStr (replicate 32767 CHR ''x''),
                                JStr (replicate 32767 CHR ''x'')]])])
       [[JStr (replicate 32767 CHR ''x''), JStr (replicate 32767 CHR ''x'')]]))
     = [replicate 32767 CHR ''x'', replicate 32767 CHR ''x'']
   \<and> cell_at (spec_sheet
       (example_env [(''in.json'', ''doc'')]
          [(''doc'', rows_doc [[JStr (replicate 32767 CHR ''x''),
                                JStr (replicate 32767 CHR ''x'')]])])
       [[JStr (replicate 32767 CHR ''x''), JStr (replicate 32767 CHR ''x'')]]) 0 1
     = Some (replicate 32767 CHR ''x'')
   \<and> length (replicate 32767 CHR ''x'') = 32767"
proof -
  let ?s = "replicate 32767 CHR ''x''"
  let ?rws = "[[JStr ?s, JStr ?s]]"
  let ?E = "example_env [(''in.json'', ''doc'')] [(''doc'', rows_doc ?rws)]"
  have h1: "read_text ?E ''in.json'' = Inr ''doc''"
    by (simp add: example_env_def)
  have h2: "json_loads ?E ''doc'' = Inr (JObj [(''rows'', JArr (map JArr ?rws))])"
    by (simp add: example_env_def rows_doc_def)
  have h3: "map_of [(''rows'', JArr (map JArr ?rws))] ''rows'' = Some (JArr (map JArr ?rws))"
    by simp
  have h4: "?rws \<noteq> []"
    by simp
  have h5: "writes_accepted ?E ?rws"
    by (simp add: writes_accepted_def writes_accepted_from_def example_env_def cell_str_def
        py_str_def)
  have h6: "save_check ?E ''out.xls'' (spec_workbook ?E ?rws) = None"
    by (simp add: example_env_def)
  have cs: "map (cell_str ?E) (concat ?rws) = [?s, ?s]"
    by (simp add: cell_str_def py_str_def)
  from strings_written_in_full [OF h1 h2 h3 h4 h5 h6, of "''generate_xls.py''"]
  have vals: "map snd (cells (spec_sheet ?E ?rws)) = map (cell_str ?E) (concat ?rws)"
    and at: "\<forall>r<length ?rws. \<forall>c<length (?rws ! r). \<forall>s.
               ?rws ! r ! c = JStr s \<longrightarrow> cell_at (spec_sheet ?E ?rws) r c = Some s"
    by blast+
  from at have "cell_at (spec_sheet ?E ?rws) 0 1 = Some ?s"
    by simp
  with vals cs show ?thesis
    by simp
qed

text \<open>
  Claim C6. For every input whose rows have differing lengths the conversion succeeds
  as for any other: exit status 0, nothing on standard error, one workbook saved. The
  sheet has a cell at \<open>(r, c)\<close> exactly when row \<open>r\<close> of the input has a cell
  \<open>c\<close>, and then the string of that cell; no position beyond a row's own length is
  written, and the number of cells is the sum of the lengths of the rows.
\<close>

theorem ragged_rows_no_padding:
  assumes "read_text E inp = Inr text"
    and "json_loads E text = Inr (JObj kvs)"
    and "map_of kvs ''rows'' = Some (JArr (map JArr rws))"
    and "rws \<noteq> []"
    and "writes_accepted E rws"
    and "save_check E outp (spec_workbook E rws) = None"
  shows "exit_status (main E prog [inp, outp]) = 0
       \<and> stderr_lines (events (main E prog [inp, outp])) = []
       \<and> saved_files (events (main E prog [inp, outp]))
           = [(outp, \<lparr>encoding = ''utf-8'', sheets = [spec_sheet E rws]\<rparr>)]
       \<and> (\<forall>r c. cell_at (spec_sheet E rws) r c
                   = (if r < length rws \<and> c < length (rws ! r)
                      then Some (cell_str E (rws ! r ! c)) else None))
       \<and> length (cells (spec_sheet E rws)) = sum_list (map length rws)"
  by (simp add: main_valid [OF assms] spec_workbook_def [symmetric])
     (simp add: spec_workbook_def spec_sheet_def spec_cells_def cell_at_spec
        length_spec_cells_from)

theorem ragged_rows_no_padding_witness:
  "exit_status (main (example_env [(''in.json'', ''doc'')]
                        [(''doc'', rows_doc [[JStr ''a'', JStr ''b'', JStr ''c''], [JStr ''d''], []])])
                     ''generate_xls.py'' [''in.json'', ''out.xls'']) = 0
   \<and> cell_at (spec_sheet (example_env [(''in.json'', ''doc'')]
                        [(''doc'', rows_doc [[JStr ''a'', JStr ''b'', JStr ''c''], [JStr ''d''], []])])
                [[JStr ''a'', JStr ''b'', JStr ''c''], [JStr ''d''], []]) 0 2 = Some ''c''
   \<and> cell_at (spec_sheet (example_env [(''in.json'', ''doc'')]
                        [(''doc'', rows_doc [[JStr ''a'', JStr ''b'', JStr ''c''], [JStr ''d''], []])])
                [[JStr ''a'', JStr ''b'', JStr ''c''], [JStr ''d''], []]) 1 1 = None
   \<and> cell_at (spec_sheet (example_env [(''in.json'', ''doc'')]
                        [(''doc'', rows_doc [[JStr ''a'', JStr ''b'', JStr ''c''], [JStr ''d''], []])])
                [[JStr ''a'', JStr ''b'', JStr ''c''], [JStr ''d''], []]) 2 0 = None
   \<and> length (cells (spec_sheet (example_env [(''in.json'', ''doc'')]
                        [(''doc'', rows_doc [[JStr ''a'', JStr ''b'', JStr ''c''], [JStr ''d''], []])])
                [[JStr ''a'', JStr ''b'', JStr ''c''], [JStr ''d''], []])) = 4"
proof -
  let ?rws = "[[JStr ''a'', JStr ''b'', JStr ''c''], [JStr ''d''], []]"
  let ?E = "example_env [(''in.json'', ''doc'')] [(''doc'', rows_doc ?rws)]"
  have h1: "read_text ?E ''in.json'' = Inr ''doc''"
    by (simp add: example_env_def)
  have h2: "json_loads ?E ''doc'' = Inr (JObj [(''rows'', JArr (map JArr ?rws))])"
    by (simp add: example_env_def rows_doc_def)
  have h3: "map_of [(''rows'', JArr (map JArr ?rws))] ''rows'' = Some (JArr (map JArr ?rws))"
    by simp
  have h4: "?rws \<noteq> []"
    by simp
  have h5: "writes_accepted ?E ?rws"
    by (simp add: writes_accepted_def writes_accepted_from_def example_env_def cell_str_def
        py_str_def)
  have h6: "save_check ?E ''out.xls'' (spec_workbook ?E ?rws) = None"
    by (simp add: example_env_def)
  from ragged_rows_no_padding [OF h1 h2 h3 h4 h5 h6, of "''generate_xls.py''"]
  show ?thesis
    by (simp add: cell_str_def py_str_def)
qed

section \<open>Failures at the top level\<close>











section \<open>The model run on examples\<close>

text \<open>
  The definitions evaluated directly, without the theorems above: the example of the
  specification, and two inputs whose \<open>rows\<close> is not a list of lists. A number that
  is not zero passes the test \<^verbatim>\<open>not rows\<close> and cannot be iterated; a string is
  iterated character by character, each character a row of one cell.
\<close>

lemma example_run:
  "main (example_env [(''in.json'', ''doc'')]
           [(''doc'', rows_doc [[JStr ''Name'', JStr ''Age''], [JStr ''Alice'', JStr ''30''],
                                [JNull, JStr ''25'']])])
        ''generate_xls.py'' [''in.json'', ''out.xls'']
     = \<lparr>exit_status = 0,
        events = [Open_input ''in.json'',
                  Save ''out.xls''
                    \<lparr>encoding = ''utf-8'',
                     sheets = [\<lparr>sheet_name = ''Sheet1'',
                                cells = [((0, 0), ''Name''), ((0, 1), ''Age''),
                                         ((1, 0), ''Alice''), ((1, 1), ''30''),
                                         ((2, 0), []), ((2, 1), ''25'')]\<rparr>]\<rparr>,
                  Stdout ''Generated XLS with 3 rows'']\<rparr>"
  by (simp add: main_def generate_xls_def example_env_def rows_doc_def sheet_write_def
      cell_str_def py_str_def str_int_def str_nat.simps)

lemma example_run_number:
  "main (example_env [(''in.json'', ''doc'')] [(''doc'', JObj [(''rows'', JInt 5)])])
        ''generate_xls.py'' [''in.json'', ''out.xls'']
     = \<lparr>exit_status = 1,
        events = [Open_input ''in.json'',
                  Stderr (''Error: '' @ [CHR 0x27] @ ''int'' @ [CHR 0x27]
                          @ '' object is not iterable'')]\<rparr>"
  by (simp add: main_def generate_xls_def example_env_def)

lemma example_run_string:
  "main (example_env [(''in.json'', ''doc'')] [(''doc'', JObj [(''rows'', JStr ''ab'')])])
        ''generate_xls.py'' [''in.json'', ''out.xls'']
     = \<lparr>exit_status = 0,
        events = [Open_input ''in.json'',
                  Save ''out.xls''
                    \<lparr>encoding = ''utf-8'',
                     sheets = [\<lparr>sheet_name = ''Sheet1'',
                                cells = [((0, 0), ''a''), ((1, 0), ''b'')]\<rparr>]\<rparr>,
                  Stdout ''Generated XLS with 2 rows'']\<rparr>"
  by (simp add: main_def generate_xls_def example_env_def sheet_write_def
      cell_str_def py_str_def str_int_def str_nat.simps)

end
